theory Spec2Isabelle
  imports Main "HOL-Library.Word" "HOL-Library.Multiset"
begin

unbundle bit_operations_syntax

type_synonym u32 = "32 word"
type_synonym byte = "8 word"

section \<open>Text\<close>

text \<open>
  A Python \<open>str\<close> is a sequence of code points. The model reads a \<open>char\<close> as one code
  point in the range 0..255 (ASCII and the Latin-1 supplement), so \<open>length\<close> counts code
  points as Python's \<open>len\<close> does; texts with code points above 255 are outside the model.
  The three character classes are the ones the \<open>re\<close> module uses for \<open>str\<close> patterns,
  restricted to that range.
\<close>

definition cp :: "char \<Rightarrow> nat" where
  "cp c = of_char c"

definition is_space :: "char \<Rightarrow> bool" where
  \<comment> \<open>\<open>\s\<close>: the code points for which \<open>str.isspace\<close> holds\<close>
  "is_space c = ((9 \<le> cp c \<and> cp c \<le> 13) \<or> (28 \<le> cp c \<and> cp c \<le> 32) \<or> cp c = 133 \<or> cp c = 160)"

definition is_digit :: "char \<Rightarrow> bool" where
  \<comment> \<open>\<open>\d\<close>: the decimal digits (category Nd)\<close>
  "is_digit c = (48 \<le> cp c \<and> cp c \<le> 57)"

definition is_alpha :: "char \<Rightarrow> bool" where
  "is_alpha c = ((65 \<le> cp c \<and> cp c \<le> 90) \<or> (97 \<le> cp c \<and> cp c \<le> 122) \<or>
     cp c = 170 \<or> cp c = 181 \<or> cp c = 186 \<or>
     (192 \<le> cp c \<and> cp c \<le> 214) \<or> (216 \<le> cp c \<and> cp c \<le> 246) \<or> 248 \<le> cp c)"

definition is_numeric :: "char \<Rightarrow> bool" where
  \<comment> \<open>digits, superscript digits and vulgar fractions\<close>
  "is_numeric c = (is_digit c \<or> cp c = 178 \<or> cp c = 179 \<or> cp c = 185 \<or>
     (188 \<le> cp c \<and> cp c \<le> 190))"

definition is_word :: "char \<Rightarrow> bool" where
  \<comment> \<open>\<open>\w\<close>: alphanumeric code points and the underscore\<close>
  "is_word c = (is_alpha c \<or> is_numeric c \<or> cp c = 95)"

definition ci :: "char \<Rightarrow> char \<Rightarrow> bool" where
  \<comment> \<open>a pattern letter under \<open>re.I\<close>: the letter itself or its other case
      (patterns here use ASCII letters only)\<close>
  "ci p c = (c = p \<or>
     (97 \<le> cp p \<and> cp p \<le> 122 \<and> cp c + 32 = cp p) \<or>
     (65 \<le> cp p \<and> cp p \<le> 90 \<and> cp c = cp p + 32))"

definition digit_val :: "char \<Rightarrow> int" where
  "digit_val c = int (cp c) - 48"

definition py_int :: "string \<Rightarrow> int" where
  \<comment> \<open>\<open>int(s)\<close> on a non-empty string of decimal digits; the interpreter's configurable
      limit on the number of digits it converts is not modelled\<close>
  "py_int ds = foldl (\<lambda>a c. 10 * a + digit_val c) 0 ds"

section \<open>Regular-expression search\<close>

text \<open>
  The patterns of \<open>app.py\<close> are sequences of quantified single-character classes that
  end in the one capturing group \<open>(\d+)\<close>. \<open>choices\<close> lists how many characters a
  quantified class may consume, in the order the backtracking matcher tries them
  (all quantifiers are greedy: longest first). \<open>paths\<close> lists the inputs that remain
  after a sequence of atoms, again in the matcher's order; \<open>match_at\<close> lists the texts
  the group can capture for a match that starts at the head of the input; \<open>search\<close> is
  \<open>re.search(...).group(1)\<close>: the first start position with a match, and the first
  match there.
\<close>

datatype quant = QOne | QOpt | QStar | QPlus

datatype atom = Atom "char \<Rightarrow> bool" quant

fun choices :: "atom \<Rightarrow> string \<Rightarrow> nat list" where
  "choices (Atom c QOne) s = (case s of [] \<Rightarrow> [] | x # _ \<Rightarrow> if c x then [1] else [])"
| "choices (Atom c QOpt) s = (case s of [] \<Rightarrow> [0] | x # _ \<Rightarrow> if c x then [1, 0] else [0])"
| "choices (Atom c QStar) s = rev [0 ..< Suc (length (takeWhile c s))]"
| "choices (Atom c QPlus) s = rev [1 ..< Suc (length (takeWhile c s))]"

fun paths :: "atom list \<Rightarrow> string \<Rightarrow> string list" where
  "paths [] s = [s]"
| "paths (a # as) s = concat (map (\<lambda>k. paths as (drop k s)) (choices a s))"

definition match_at :: "atom list \<Rightarrow> atom \<Rightarrow> string \<Rightarrow> string list" where
  "match_at pre grp s = concat (map (\<lambda>r. map (\<lambda>k. take k r) (choices grp r)) (paths pre s))"

fun search :: "atom list \<Rightarrow> atom \<Rightarrow> string \<Rightarrow> string option" where
  "search pre grp [] = (case match_at pre grp [] of [] \<Rightarrow> None | g # _ \<Rightarrow> Some g)"
| "search pre grp (x # xs) =
     (case match_at pre grp (x # xs) of [] \<Rightarrow> search pre grp xs | g # _ \<Rightarrow> Some g)"

definition lit :: "string \<Rightarrow> atom list" where
  "lit w = map (\<lambda>p. Atom (ci p) QOne) w"

definition digits_group :: atom where
  \<comment> \<open>\<open>(\d+)\<close>\<close>
  "digits_group = Atom is_digit QPlus"

definition colon_or_space :: "char \<Rightarrow> bool" where
  \<comment> \<open>\<open>[:\s]\<close>\<close>
  "colon_or_space c = (c = CHR '':'' \<or> is_space c)"

definition colon_or_dash :: "char \<Rightarrow> bool" where
  \<comment> \<open>\<open>[:\-]\<close>\<close>
  "colon_or_dash c = (c = CHR '':'' \<or> c = CHR ''-'')"

section \<open>Helpers of app.py\<close>

definition calories_re :: "atom list" where
  \<comment> \<open>\<open>calorie[s]?\s*[:\-]?\s*\<close> before the group\<close>
  "calories_re = lit ''calorie'' @
     [Atom (ci CHR ''s'') QOpt, Atom is_space QStar, Atom colon_or_dash QOpt, Atom is_space QStar]"

definition extract_calories :: "string \<Rightarrow> int" where
  "extract_calories text =
     (case search calories_re digits_group text of Some g \<Rightarrow> py_int g | None \<Rightarrow> 0)"

definition protein_re :: "atom list" where
  \<comment> \<open>\<open>Protein[:\s]+\<close>\<close>
  "protein_re = lit ''Protein'' @ [Atom colon_or_space QPlus]"

definition carb_re :: "atom list" where
  \<comment> \<open>\<open>Carb\w*[:\s]+\<close>\<close>
  "carb_re = lit ''Carb'' @ [Atom is_word QStar, Atom colon_or_space QPlus]"

definition fat_re :: "atom list" where
  \<comment> \<open>\<open>Fat\w*[:\s]+\<close>\<close>
  "fat_re = lit ''Fat'' @ [Atom is_word QStar, Atom colon_or_space QPlus]"

definition extract_macros :: "string \<Rightarrow> int option \<times> int option \<times> int option" where
  "extract_macros text =
     (let p = search protein_re digits_group text;
          c = search carb_re digits_group text;
          f = search fat_re digits_group text
      in case (p, c, f) of
           (Some pg, Some cg, Some fg) \<Rightarrow> (Some (py_int pg), Some (py_int cg), Some (py_int fg))
         | _ \<Rightarrow> (None, None, None))"

subsection \<open>hash_pass: SHA-256 of the UTF-8 encoding, as lowercase hex\<close>

definition encode :: "string \<Rightarrow> byte list" where
  \<comment> \<open>\<open>str.encode()\<close>: UTF-8; one byte below 128, two bytes for 128..255\<close>
  "encode s = concat (map (\<lambda>c. if cp c < 128 then [of_char c]
       else [0xC0 OR drop_bit 6 (of_char c), 0x80 OR (of_char c AND 0x3F)]) s)"

definition rotr :: "nat \<Rightarrow> u32 \<Rightarrow> u32" where
  "rotr n x = drop_bit n x OR push_bit (32 - n) x"

definition Ch :: "u32 \<Rightarrow> u32 \<Rightarrow> u32 \<Rightarrow> u32" where
  "Ch x y z = (x AND y) XOR (NOT x AND z)"

definition Maj :: "u32 \<Rightarrow> u32 \<Rightarrow> u32 \<Rightarrow> u32" where
  "Maj x y z = (x AND y) XOR (x AND z) XOR (y AND z)"

definition Sigma0 :: "u32 \<Rightarrow> u32" where
  "Sigma0 x = rotr 2 x XOR rotr 13 x XOR rotr 22 x"

definition Sigma1 :: "u32 \<Rightarrow> u32" where
  "Sigma1 x = rotr 6 x XOR rotr 11 x XOR rotr 25 x"

definition sigma0 :: "u32 \<Rightarrow> u32" where
  "sigma0 x = rotr 7 x XOR rotr 18 x XOR drop_bit 3 x"

definition sigma1 :: "u32 \<Rightarrow> u32" where
  "sigma1 x = rotr 17 x XOR rotr 19 x XOR drop_bit 10 x"

definition K256 :: "u32 list" where
  "K256 = [
    0x428A2F98, 0x71374491, 0xB5C0FBCF, 0xE9B5DBA5, 0x3956C25B, 0x59F111F1, 0x923F82A4, 0xAB1C5ED5,
    0xD807AA98, 0x12835B01, 0x243185BE, 0x550C7DC3, 0x72BE5D74, 0x80DEB1FE, 0x9BDC06A7, 0xC19BF174,
    0xE49B69C1, 0xEFBE4786, 0x0FC19DC6, 0x240CA1CC, 0x2DE92C6F, 0x4A7484AA, 0x5CB0A9DC, 0x76F988DA,
    0x983E5152, 0xA831C66D, 0xB00327C8, 0xBF597FC7, 0xC6E00BF3, 0xD5A79147, 0x06CA6351, 0x14292967,
    0x27B70A85, 0x2E1B2138, 0x4D2C6DFC, 0x53380D13, 0x650A7354, 0x766A0ABB, 0x81C2C92E, 0x92722C85,
    0xA2BFE8A1, 0xA81A664B, 0xC24B8B70, 0xC76C51A3, 0xD192E819, 0xD6990624, 0xF40E3585, 0x106AA070,
    0x19A4C116, 0x1E376C08, 0x2748774C, 0x34B0BCB5, 0x391C0CB3, 0x4ED8AA4A, 0x5B9CCA4F, 0x682E6FF3,
    0x748F82EE, 0x78A5636F, 0x84C87814, 0x8CC70208, 0x90BEFFFA, 0xA4506CEB, 0xBEF9A3F7, 0xC67178F2]"

definition H_init :: "u32 list" where
  "H_init = [0x6A09E667, 0xBB67AE85, 0x3C6EF372, 0xA54FF53A,
             0x510E527F, 0x9B05688C, 0x1F83D9AB, 0x5BE0CD19]"

definition be32 :: "byte \<Rightarrow> byte \<Rightarrow> byte \<Rightarrow> byte \<Rightarrow> u32" where
  "be32 a b c d =
     push_bit 24 (ucast a) OR push_bit 16 (ucast b) OR push_bit 8 (ucast c) OR ucast d"

fun words_of :: "byte list \<Rightarrow> u32 list" where
  "words_of (a # b # c # d # bs) = be32 a b c d # words_of bs"
| "words_of _ = []"

definition pad :: "byte list \<Rightarrow> byte list" where
  \<comment> \<open>a one bit, zeros up to 56 modulo 64, then the bit length as 64 bits, big-endian\<close>
  "pad bs = bs @ [0x80] @ replicate ((64 - (length bs + 9) mod 64) mod 64) 0 @
     map (\<lambda>i. ucast (drop_bit (8 * i) (word_of_nat (8 * length bs) :: 64 word))) (rev [0..<8])"

fun schedule :: "nat \<Rightarrow> u32 list \<Rightarrow> u32 list" where
  \<comment> \<open>the message schedule, newest word first\<close>
  "schedule 0 ws = ws"
| "schedule (Suc n) ws =
     schedule n ((sigma1 (ws ! 1) + ws ! 6 + sigma0 (ws ! 14) + ws ! 15) # ws)"

fun round256 :: "u32 list \<Rightarrow> u32 \<times> u32 \<Rightarrow> u32 list" where
  "round256 [a, b, c, d, e, f, g, h] (k, w) =
     (let t1 = h + Sigma1 e + Ch e f g + k + w;
          t2 = Sigma0 a + Maj a b c
      in [t1 + t2, a, b, c, d + t1, e, f, g])"
| "round256 st _ = st"

definition compress :: "u32 list \<Rightarrow> u32 list \<Rightarrow> u32 list" where
  "compress hs block =
     map2 (+) hs (foldl round256 hs (zip K256 (rev (schedule 48 (rev block)))))"

fun blocks :: "nat \<Rightarrow> u32 list \<Rightarrow> u32 list \<Rightarrow> u32 list" where
  "blocks 0 hs ws = hs"
| "blocks (Suc n) hs ws = blocks n (compress hs (take 16 ws)) (drop 16 ws)"

definition sha256 :: "byte list \<Rightarrow> u32 list" where
  "sha256 bs = (let ws = words_of (pad bs) in blocks (length ws div 16) H_init ws)"

definition hex_char :: "nat \<Rightarrow> char" where
  \<comment> \<open>for \<open>n < 16\<close>\<close>
  "hex_char n = ''0123456789abcdef'' ! n"

definition hex32 :: "u32 \<Rightarrow> string" where
  "hex32 w = map (\<lambda>i. hex_char (unat (drop_bit (4 * i) w AND 15))) (rev [0..<8])"

definition hexdigest :: "u32 list \<Rightarrow> string" where
  "hexdigest hs = concat (map hex32 hs)"

definition hash_pass :: "string \<Rightarrow> string" where
  "hash_pass p = hexdigest (sha256 (encode p))"

subsection \<open>Splitting\<close>

text \<open>
  \<open>s.split(sep)\<close> with a one-character separator never returns an empty list, so the
  model returns the first piece and the list of the others; \<open>s.split(sep)[0]\<close> is the
  first component.
\<close>

fun split_on :: "char \<Rightarrow> string \<Rightarrow> string \<times> string list" where
  "split_on sep [] = ([], [])"
| "split_on sep (x # xs) =
     (case split_on sep xs of (p, ps) \<Rightarrow> if x = sep then ([], p # ps) else (x # p, ps))"

definition pieces :: "string \<times> string list \<Rightarrow> string list" where
  "pieces p = fst p # snd p"

definition newline :: char where
  "newline = CHR 0x0A"

subsection \<open>generate_pdf\<close>

datatype flowable = Paragraph string | Spacer nat nat

definition generate_pdf :: "string \<Rightarrow> flowable list" where
  \<comment> \<open>the story handed to the document builder; the rendering itself is the library's\<close>
  "generate_pdf text = concat (map (\<lambda>line. [Paragraph line, Spacer 1 8]) (pieces (split_on newline text)))"

section \<open>Database\<close>

text \<open>
  Table \<open>users(username TEXT PRIMARY KEY, password TEXT)\<close> is a map from username to
  the stored password text. Table \<open>history\<close> is the list of its rows in insertion order,
  with the counter behind \<open>AUTOINCREMENT\<close>.
\<close>

datatype exn = OperationalError | IntegrityError | OverflowError | ServiceError

record history_row =
  row_id :: nat
  row_username :: string
  date :: string
  meal :: string
  calories :: int
  details :: string

record database =
  users :: "string \<rightharpoonup> string"
  history :: "history_row list"
  history_seq :: nat

definition find_user :: "database \<Rightarrow> string \<Rightarrow> string option" where
  \<comment> \<open>\<open>SELECT password FROM users WHERE username=?\<close>, then \<open>fetchone\<close>\<close>
  "find_user d u = users d u"

definition insert_user :: "database \<Rightarrow> string \<Rightarrow> string \<Rightarrow> exn + database" where
  \<comment> \<open>\<open>INSERT INTO users VALUES (?,?)\<close>: the primary key rejects a present username\<close>
  "insert_user d u h =
     (case users d u of Some _ \<Rightarrow> Inl IntegrityError
      | None \<Rightarrow> Inr (d\<lparr>users := (users d)(u \<mapsto> h)\<rparr>))"

definition insert_history ::
  "database \<Rightarrow> string \<Rightarrow> string \<Rightarrow> string \<Rightarrow> int \<Rightarrow> string \<Rightarrow> exn + database" where
  \<comment> \<open>\<open>INSERT INTO history(username,date,meal,calories,details) VALUES (?,?,?,?,?)\<close>;
      binding a Python int beyond 64 bits raises \<open>OverflowError\<close>\<close>
  "insert_history d u dt m c det =
     (if c > 2 ^ 63 - 1 \<or> c < - (2 ^ 63) then Inl OverflowError
      else Inr (d\<lparr>history := history d @
                  [\<lparr>row_id = Suc (history_seq d), row_username = u, date = dt, meal = m,
                    calories = c, details = det\<rparr>],
                history_seq := Suc (history_seq d)\<rparr>))"

fun text_le :: "string \<Rightarrow> string \<Rightarrow> bool" where
  \<comment> \<open>the order of TEXT values: code point by code point, a proper prefix first\<close>
  "text_le [] ys = True"
| "text_le (x # xs) [] = False"
| "text_le (x # xs) (y # ys) = (cp x < cp y \<or> (cp x = cp y \<and> text_le xs ys))"

fun insert_desc :: "string \<times> string \<times> int \<Rightarrow> (string \<times> string \<times> int) list \<Rightarrow>
    (string \<times> string \<times> int) list" where
  "insert_desc r [] = [r]"
| "insert_desc r (x # xs) =
     (if text_le (fst x) (fst r) then r # x # xs else x # insert_desc r xs)"

fun order_by_date_desc :: "(string \<times> string \<times> int) list \<Rightarrow> (string \<times> string \<times> int) list" where
  \<comment> \<open>\<open>ORDER BY date DESC\<close>; SQL leaves the order of rows with equal dates open, the
      model keeps them in insertion order\<close>
  "order_by_date_desc [] = []"
| "order_by_date_desc (r # rs) = insert_desc r (order_by_date_desc rs)"

definition columns :: "history_row \<Rightarrow> string \<times> string \<times> int" where
  "columns r = (date r, meal r, calories r)"

definition select_history :: "database \<Rightarrow> string \<Rightarrow> (string \<times> string \<times> int) list" where
  \<comment> \<open>\<open>SELECT date, meal, calories FROM history WHERE username=? ORDER BY date DESC\<close>\<close>
  "select_history d u =
     order_by_date_desc (map columns (filter (\<lambda>r. row_username r = u) (history d)))"

section \<open>The application\<close>

record datetime =
  year :: nat
  month :: nat
  day :: nat
  hour :: nat
  minute :: nat

definition digit_char :: "nat \<Rightarrow> char" where
  \<comment> \<open>for \<open>n < 10\<close>\<close>
  "digit_char n = ''0123456789'' ! n"

fun zpad :: "nat \<Rightarrow> nat \<Rightarrow> string" where
  \<comment> \<open>the decimal numeral of \<open>n\<close>, zero-padded to \<open>w\<close> digits, for \<open>n < 10 ^ w\<close>\<close>
  "zpad 0 n = []"
| "zpad (Suc w) n = zpad w (n div 10) @ [digit_char (n mod 10)]"

definition strftime :: "datetime \<Rightarrow> string" where
  \<comment> \<open>\<open>strftime("%d-%m-%Y %H:%M")\<close> on a clock reading: a year of four digits, a month
      of 1..12, a day of 1..31, an hour below 24 and a minute below 60\<close>
  "strftime t = zpad 2 (day t) @ ''-'' @ zpad 2 (month t) @ ''-'' @ zpad 4 (year t) @ '' '' @
     zpad 2 (hour t) @ '':'' @ zpad 2 (minute t)"

record uploaded_file =
  file_type :: string
  file_bytes :: "byte list"

record image_data =
  mime_type :: string
  data :: "byte list"

record session_state =
  logged_in :: bool
  username :: string

datatype icon = Red_Circle | Green_Circle

datatype widget =
    Error_msg string
  | Success_msg string
  | Warning_msg string
  | Card string
  | Pie_Chart int int int
  | Download_Button string "flowable list"
  | Share_Link
  | Subheader string
  | History_Card string icon string int

text \<open>
  The world a script run works on: the database file, the session state, what the run
  has put on the page, and the requests sent to the AI service. The environment of a
  run: whether the database fails to open or commit during the run, what the AI service
  answers (\<open>None\<close> when the call raises), and the clock.
\<close>

record world =
  db :: database
  session :: session_state
  screen :: "widget list"
  ai_requests :: "(string \<times> image_data) list"

record env =
  storage_fails :: bool
  ai_reply :: "string \<Rightarrow> image_data \<Rightarrow> string option"
  now :: datetime

definition display :: "widget list \<Rightarrow> world \<Rightarrow> world" where
  "display ws w = w\<lparr>screen := screen w @ ws\<rparr>"

definition HIGH_CAL_THRESHOLD :: int where
  "HIGH_CAL_THRESHOLD = 500"

definition prompt :: "string \<Rightarrow> string" where
  "prompt qty = [newline] @
     ''You are a nutritionist.'' @ [newline] @
     ''Quantity: '' @ qty @ [newline] @
     [newline] @
     ''Meal Name:'' @ [newline] @
     ''Ingredients and Calories:'' @ [newline] @
     ''Macronutrient Profile:'' @ [newline] @
     ''Protein: X'' @ [newline] @
     ''Carbs: X'' @ [newline] @
     ''Fats: X'' @ [newline] @
     ''Fiber: X grams'' @ [newline] @
     ''Healthiness:'' @ [newline] @
     ''Recommendation:'' @ [newline] @
     ''Kids suitability:'' @ [newline]"

text \<open>
  The script shows the authentication page while \<open>logged_in\<close> is false and stops
  there; otherwise it shows the analysis page and then the history. Each handler below
  is the body of one \<open>if st.button(...)\<close> block, or the history section. It returns the
  exception that ends the run, if any, and the world as the run leaves it.
\<close>

definition login :: "env \<Rightarrow> string \<Rightarrow> string \<Rightarrow> world \<Rightarrow> exn option \<times> world" where
  "login e u p w =
     (if storage_fails e then (Some OperationalError, w)
      else case find_user (db w) u of
             None \<Rightarrow> (None, display [Error_msg ''Invalid credentials''] w)
           | Some r \<Rightarrow>
               if r = hash_pass p
               then (None, w\<lparr>session := \<lparr>logged_in = True, username = u\<rparr>\<rparr>)
               else (None, display [Error_msg ''Invalid credentials''] w))"

definition create_account :: "env \<Rightarrow> string \<Rightarrow> string \<Rightarrow> world \<Rightarrow> exn option \<times> world" where
  \<comment> \<open>the bare \<open>except\<close> catches whatever the \<open>try\<close> block raises\<close>
  "create_account e nu np w =
     (case (if storage_fails e then Inl OperationalError
            else insert_user (db w) nu (hash_pass np)) of
        Inr d \<Rightarrow> (None, display [Success_msg ''Account created''] (w\<lparr>db := d\<rparr>))
      | Inl _ \<Rightarrow> (None, display [Error_msg ''Username exists''] w))"

definition analyse_food ::
  "env \<Rightarrow> uploaded_file option \<Rightarrow> string \<Rightarrow> world \<Rightarrow> exn option \<times> world" where
  "analyse_food e uploaded qty w =
     (case uploaded of
        None \<Rightarrow> (None, display [Warning_msg ''Upload image first''] w)
      | Some up \<Rightarrow>
          let image = \<lparr>mime_type = file_type up, data = file_bytes up\<rparr>;
              w1 = w\<lparr>ai_requests := ai_requests w @ [(prompt qty, image)]\<rparr>
          in case ai_reply e (prompt qty) image of
               None \<Rightarrow> (Some ServiceError, w1)
             | Some result \<Rightarrow>
                 let cal = extract_calories result
                 in case (if storage_fails e then Inl OperationalError
                          else insert_history (db w1) (username (session w1)) (strftime (now e))
                                 (fst (split_on newline result)) cal result) of
                      Inl x \<Rightarrow> (Some x, w1)
                    | Inr d \<Rightarrow>
                        (None, display
                           ([Card result] @
                            (case extract_macros result of
                               (Some p, Some c, Some f) \<Rightarrow> [Pie_Chart p c f]
                             | _ \<Rightarrow> []) @
                            [Download_Button ''nutrivision_report.pdf'' (generate_pdf result),
                             Share_Link])
                           (w1\<lparr>db := d\<rparr>)))"

definition card_color :: "int \<Rightarrow> string" where
  "card_color cal = (if cal \<ge> HIGH_CAL_THRESHOLD then ''#FF5252'' else ''#81C784'')"

definition card_icon :: "int \<Rightarrow> icon" where
  "card_icon cal = (if cal \<ge> HIGH_CAL_THRESHOLD then Red_Circle else Green_Circle)"

fun render_rows :: "string option \<Rightarrow> (string \<times> string \<times> int) list \<Rightarrow> widget list" where
  \<comment> \<open>the loop over the fetched rows; the first argument is \<open>current_day\<close>\<close>
  "render_rows current_day [] = []"
| "render_rows current_day ((d, m, cal) # rows) =
     (let dy = fst (split_on CHR '' '' d)
      in (if Some dy \<noteq> current_day then [Subheader dy] else []) @
         [History_Card (card_color cal) (card_icon cal) m cal] @
         render_rows (Some dy) rows)"

definition calendar_history :: "env \<Rightarrow> world \<Rightarrow> exn option \<times> world" where
  "calendar_history e w =
     (if storage_fails e then (Some OperationalError, w)
      else (None, display (render_rows None (select_history (db w) (username (session w)))) w))"

section \<open>The stated behaviour of the text helpers\<close>

text \<open>
  The specification describes the helpers as scans of the text. The definitions below
  follow its words: a scanner that reads a keyword, skips what may stand between it and
  the number, and takes the digits; the search tries each position from the left.
\<close>

definition first :: "'a list \<Rightarrow> 'a option" where
  "first xs = (case xs of [] \<Rightarrow> None | x # _ \<Rightarrow> Some x)"













text \<open>Two clock readings, for the order of the history listing.\<close>

definition earlier :: "datetime \<Rightarrow> datetime \<Rightarrow> bool" where
  "earlier a b =
     (year a < year b \<or> (year a = year b \<and> (month a < month b \<or> (month a = month b \<and>
       (day a < day b \<or> (day a = day b \<and> (hour a < hour b \<or>
         (hour a = hour b \<and> minute a < minute b))))))))"


section \<open>Example values\<close>

definition jan15 :: datetime where
  "jan15 = \<lparr>year = 2025, month = 1, day = 15, hour = 10, minute = 0\<rparr>"

definition feb01 :: datetime where
  "feb01 = \<lparr>year = 2025, month = 2, day = 1, hour = 10, minute = 0\<rparr>"

definition example_history :: "history_row list" where
  "example_history =
       [\<lparr>row_id = 1, row_username = ''alice'', date = strftime jan15, meal = ''Oats'',
          calories = 300, details = ''Oats''\<rparr>,
        \<lparr>row_id = 2, row_username = ''bob'', date = strftime jan15, meal = ''Pizza'',
          calories = 900, details = ''Pizza''\<rparr>,
        \<lparr>row_id = 3, row_username = ''alice'', date = strftime feb01, meal = ''Salad'',
          calories = 200, details = ''Salad''\<rparr>]"

definition example_db :: database where
  "example_db = \<lparr>users = [''alice'' \<mapsto> hash_pass ''secret''], history = example_history,
     history_seq = 3\<rparr>"

definition anonymous_world :: world where
  "anonymous_world = \<lparr>db = example_db, session = \<lparr>logged_in = False, username = []\<rparr>,
     screen = [], ai_requests = []\<rparr>"

definition alice_world :: world where
  "alice_world = \<lparr>db = example_db, session = \<lparr>logged_in = True, username = ''alice''\<rparr>,
     screen = [], ai_requests = []\<rparr>"

definition env_replying :: "string \<Rightarrow> env" where
  "env_replying r = \<lparr>storage_fails = False, ai_reply = (\<lambda>_ _. Some r), now = feb01\<rparr>"

definition failing_env :: env where
  "failing_env = \<lparr>storage_fails = True, ai_reply = (\<lambda>_ _. None), now = feb01\<rparr>"

definition example_upload :: uploaded_file where
  "example_upload = \<lparr>file_type = ''image/png'', file_bytes = [0x89, 0x50, 0x4E, 0x47]\<rparr>"


fun is_card :: "widget \<Rightarrow> bool" where
  "is_card (History_Card _ _ _ _) = True"
| "is_card _ = False"



section \<open>Properties of the search\<close>

lemma first_simps [simp]: "first [] = None" "first (x # xs) = Some x"
  by (simp_all add: first_def)




















subsection \<open>The character classes of the patterns do not overlap\<close>













subsection \<open>The calorie pattern, from its end\<close>










subsection \<open>The macro patterns\<close>











subsection \<open>The digest has 64 characters\<close>

lemma length_round256: "length st = 8 \<Longrightarrow> length (round256 st kw) = 8"
  by (cases kw) (auto simp: eval_nat_numeral length_Suc_conv Let_def)

lemma length_foldl_round256: "length st = 8 \<Longrightarrow> length (foldl round256 st kws) = 8"
  by (induction kws arbitrary: st) (simp_all add: length_round256)

lemma length_compress: "length hs = 8 \<Longrightarrow> length (compress hs b) = 8"
  by (simp add: compress_def length_foldl_round256)

lemma length_blocks: "length hs = 8 \<Longrightarrow> length (blocks n hs ws) = 8"
  by (induction n arbitrary: hs ws) (simp_all add: length_compress)

lemma length_sha256: "length (sha256 bs) = 8"
  by (simp add: sha256_def Let_def length_blocks H_init_def)

lemma length_hexdigest: "length (hexdigest hs) = 8 * length hs"
  by (induction hs) (simp_all add: hexdigest_def hex32_def)

lemma length_hash_pass: "length (hash_pass p) = 64"
  by (simp add: hash_pass_def length_hexdigest length_sha256)

subsection \<open>The first piece of a split\<close>

lemma fst_split_on: "fst (split_on sep s) = takeWhile (\<lambda>c. c \<noteq> sep) s"
  by (induction s) (auto split: prod.splits)

lemma fst_split_on_no_sep: "sep \<notin> set s \<Longrightarrow> fst (split_on sep s) = s"
  by (auto simp: fst_split_on)

subsection \<open>Ordering of the history listing\<close>

lemma text_le_refl: "text_le a a"
  by (induction a) simp_all

lemma text_le_total: "text_le a b \<or> text_le b a"
  by (induction a b rule: text_le.induct) auto

lemma text_le_trans: "text_le a b \<Longrightarrow> text_le b c \<Longrightarrow> text_le a c"
proof (induction a b arbitrary: c rule: text_le.induct)
  case (1 ys) then show ?case by simp
next
  case (2 x xs) then show ?case by simp
next
  case (3 x xs y ys)
  then show ?case by (cases c) auto
qed

lemma cp_eq_iff: "cp x = cp y \<longleftrightarrow> x = y"
  by (simp add: cp_def)

text \<open>\<open>text_le\<close> is the lexicographic order of the code points, made reflexive.\<close>

lemma text_le_lexord:
  "text_le a b \<longleftrightarrow> a = b \<or> (a, b) \<in> lexord {(x, y). cp x < cp y}"
proof (induction a b rule: text_le.induct)
  case (1 ys) then show ?case by (cases ys) auto
next
  case (2 x xs) then show ?case by simp
next
  case (3 x xs y ys)
  then show ?case by (auto simp: cp_eq_iff)
qed

lemma mset_insert_desc: "mset (insert_desc r xs) = add_mset r (mset xs)"
  by (induction xs) simp_all

lemma set_insert_desc: "set (insert_desc r xs) = insert r (set xs)"
  by (induction xs) auto

lemma sorted_insert_desc:
  "sorted_wrt (\<lambda>a b. text_le (fst b) (fst a)) xs \<Longrightarrow>
   sorted_wrt (\<lambda>a b. text_le (fst b) (fst a)) (insert_desc r xs)"
proof (induction xs)
  case Nil then show ?case by simp
next
  case (Cons x xs)
  show ?case
  proof (cases "text_le (fst x) (fst r)")
    case True
    then show ?thesis using Cons.prems by (auto intro: text_le_trans)
  next
    case False
    then have "text_le (fst r) (fst x)" using text_le_total by blast
    then show ?thesis using False Cons by (auto simp: set_insert_desc)
  qed
qed

lemma mset_order_by_date_desc: "mset (order_by_date_desc rs) = mset rs"
  by (induction rs) (simp_all add: mset_insert_desc)

lemma sorted_order_by_date_desc:
  "sorted_wrt (\<lambda>a b. text_le (fst b) (fst a)) (order_by_date_desc rs)"
  by (induction rs) (simp_all add: sorted_insert_desc)

subsection \<open>The handlers\<close>

lemma analyse_food_success:
  assumes "ai_reply e (prompt qty) \<lparr>mime_type = file_type up, data = file_bytes up\<rparr> = Some result"
    and "\<not> storage_fails e"
    and "- (2 ^ 63) \<le> extract_calories result" and "extract_calories result \<le> 2 ^ 63 - 1"
  shows "fst (analyse_food e (Some up) qty w) = None \<and>
         history (db (snd (analyse_food e (Some up) qty w))) = history (db w) @
           [\<lparr>row_id = Suc (history_seq (db w)), row_username = username (session w),
             date = strftime (now e), meal = fst (split_on newline result),
             calories = extract_calories result, details = result\<rparr>]"
  using assms by (simp add: analyse_food_def insert_history_def Let_def display_def)

lemma analyse_food_None_D:
  assumes "analyse_food e (Some up) qty w = (None, w')"
  shows "\<exists>result. ai_reply e (prompt qty) \<lparr>mime_type = file_type up, data = file_bytes up\<rparr> =
           Some result \<and>
         history (db w') = history (db w) @
           [\<lparr>row_id = Suc (history_seq (db w)), row_username = username (session w),
             date = strftime (now e), meal = fst (split_on newline result),
             calories = extract_calories result, details = result\<rparr>]"
  using assms
  by (auto simp: analyse_food_def insert_history_def Let_def display_def
      split: option.splits if_splits sum.splits)

subsection \<open>The example response\<close>












lemma apple_calories: "extract_calories ''Apple'' = 0 \<and> extract_calories (newline # ''Apple'') = 0"
  by code_simp

text \<open>The digest of the empty password is the SHA-256 test vector for the empty message.\<close>

lemma hash_pass_empty:
  "hash_pass [] = ''e3b0c44298fc1c149afbf4c8996fb92427ae41e4649b934ca495991b7852b855''"
  by code_simp

section \<open>Claims about the text helpers\<close>




section \<open>Claims about the handlers\<close>

text \<open>
  C1. For every database and every username \<open>u\<close>, the history listing holds exactly
  the stored rows whose username is \<open>u\<close> (as a multiset of their date, meal and calories
  columns: no row of another user, none of \<open>u\<close> missing, none twice), in descending
  lexicographic order of the date text, compared code point by code point. That order is not the order
  of time: the text "01-02-2025" is below "15-01-2025", so with entries of 15 January
  and 1 February 2025 (and another user's entry of the same date) the listing shows the
  January entry, the older one, first.
\<close>

theorem select_history_filter_sorted:
  "mset (select_history d u) = mset (map columns (filter (\<lambda>r. row_username r = u) (history d))) \<and>
   sorted_wrt (\<lambda>a b. text_le (fst b) (fst a)) (select_history d u) \<and>
   sorted_wrt (\<lambda>a b. fst b = fst a \<or> (fst b, fst a) \<in> lexord {(x, y). cp x < cp y})
     (select_history d u) \<and>
   (text_le ''01-02-2025'' ''15-01-2025'' \<and> \<not> text_le ''15-01-2025'' ''01-02-2025'') \<and>
   (earlier jan15 feb01 \<and>
    select_history \<lparr>users = Map.empty, history = example_history, history_seq = 3\<rparr> ''alice'' =
      [(strftime jan15, ''Oats'', 300), (strftime feb01, ''Salad'', 200)])"
proof -
  have "mset (select_history d u) =
          mset (map columns (filter (\<lambda>r. row_username r = u) (history d)))"
    by (simp add: select_history_def mset_order_by_date_desc)
  moreover have "sorted_wrt (\<lambda>a b. text_le (fst b) (fst a)) (select_history d u)"
    by (simp add: select_history_def sorted_order_by_date_desc)
  moreover have "sorted_wrt (\<lambda>a b. fst b = fst a \<or>
      (fst b, fst a) \<in> lexord {(x, y). cp x < cp y}) (select_history d u)"
    using sorted_order_by_date_desc [of "map columns (filter (\<lambda>r. row_username r = u) (history d))"]
    by (simp only: select_history_def text_le_lexord)
  moreover have "text_le ''01-02-2025'' ''15-01-2025'' \<and> \<not> text_le ''15-01-2025'' ''01-02-2025''"
    by code_simp
  moreover have "earlier jan15 feb01" by code_simp
  moreover have "select_history \<lparr>users = Map.empty, history = example_history, history_seq = 3\<rparr>
      ''alice'' = [(strftime jan15, ''Oats'', 300), (strftime feb01, ''Salad'', 200)]"
    by code_simp
  ultimately show ?thesis by blast
qed

text \<open>
  C4. In an anonymous session, while the database can be read, submitting the login
  form with username \<open>u\<close> and password \<open>p\<close> leaves the session authenticated exactly when
  the users table holds \<open>u\<close> with the SHA-256 hex digest of \<open>p\<close> (64 hex characters, that
  is 256 bits, a function of \<open>p\<close> only); the session is then bound to \<open>u\<close>. In every other
  case (unknown username, other stored text) the world is unchanged but for the message
  "Invalid credentials", so the session stays anonymous.
\<close>

theorem login_transition:
  assumes "\<not> logged_in (session w)" and "\<not> storage_fails e"
  shows "(logged_in (session (snd (login e u p w))) \<longleftrightarrow> users (db w) u = Some (hash_pass p)) \<and>
         (users (db w) u = Some (hash_pass p) \<longrightarrow>
            login e u p w = (None, w\<lparr>session := \<lparr>logged_in = True, username = u\<rparr>\<rparr>)) \<and>
         (users (db w) u \<noteq> Some (hash_pass p) \<longrightarrow>
            login e u p w = (None, w\<lparr>screen := screen w @ [Error_msg ''Invalid credentials'']\<rparr>)) \<and>
         length (hash_pass p) = 64"
  using assms
  by (auto simp: login_def find_user_def display_def length_hash_pass split: option.splits)

text \<open>The hypotheses of C4 at a stored user with the right password, and at an unknown user.\<close>

theorem login_transition_witness:
  "\<not> logged_in (session anonymous_world) \<and> \<not> storage_fails (env_replying []) \<and>
   users (db anonymous_world) ''alice'' = Some (hash_pass ''secret'') \<and>
   login (env_replying []) ''alice'' ''secret'' anonymous_world =
     (None, anonymous_world\<lparr>session := \<lparr>logged_in = True, username = ''alice''\<rparr>\<rparr>) \<and>
   users (db anonymous_world) ''bob'' \<noteq> Some (hash_pass ''secret'') \<and>
   login (env_replying []) ''bob'' ''secret'' anonymous_world =
     (None, anonymous_world\<lparr>screen := screen anonymous_world @ [Error_msg ''Invalid credentials'']\<rparr>)"
proof -
  have a: "\<not> logged_in (session anonymous_world)" by (simp add: anonymous_world_def)
  have b: "\<not> storage_fails (env_replying [])" by (simp add: env_replying_def)
  have c: "users (db anonymous_world) ''alice'' = Some (hash_pass ''secret'')"
    by (simp add: anonymous_world_def example_db_def)
  have d: "users (db anonymous_world) ''bob'' \<noteq> Some (hash_pass ''secret'')"
    by (simp add: anonymous_world_def example_db_def)
  show ?thesis
    using a b c d login_transition [OF a b, of "''alice''" "''secret''"]
      login_transition [OF a b, of "''bob''" "''secret''"]
    by simp
qed

text \<open>
  C5. Registering a username that is not in the users table, while the database can
  be written, stores the row (username, digest of the password), which \<open>find_user\<close>
  then returns, shows "Account created" and leaves the session as it was. Registering
  a username that is present changes nothing but the page, which shows "Username
  exists". A storage failure during the insert is caught by the same handler: nothing
  changes but the page, which shows the same "Username exists".
\<close>

theorem create_account_outcomes:
  "(\<not> storage_fails e \<and> users (db w) nu = None \<longrightarrow>
      create_account e nu np w =
        (None, w\<lparr>db := (db w)\<lparr>users := (users (db w))(nu \<mapsto> hash_pass np)\<rparr>,
                 screen := screen w @ [Success_msg ''Account created'']\<rparr>) \<and>
      find_user (db (snd (create_account e nu np w))) nu = Some (hash_pass np) \<and>
      session (snd (create_account e nu np w)) = session w) \<and>
   (users (db w) nu \<noteq> None \<longrightarrow>
      create_account e nu np w =
        (None, w\<lparr>screen := screen w @ [Error_msg ''Username exists'']\<rparr>)) \<and>
   (storage_fails e \<longrightarrow>
      create_account e nu np w =
        (None, w\<lparr>screen := screen w @ [Error_msg ''Username exists'']\<rparr>))"
  by (auto simp: create_account_def insert_user_def find_user_def display_def
      split: option.splits)

text \<open>The three cases of C5: a fresh username, a present one, a failing database.\<close>

theorem create_account_outcomes_witness:
  "(\<not> storage_fails (env_replying []) \<and> users (db anonymous_world) ''carol'' = None) \<and>
   find_user (db (snd (create_account (env_replying []) ''carol'' ''pw'' anonymous_world))) ''carol'' =
     Some (hash_pass ''pw'') \<and>
   session (snd (create_account (env_replying []) ''carol'' ''pw'' anonymous_world)) =
     session anonymous_world \<and>
   users (db anonymous_world) ''alice'' \<noteq> None \<and>
   create_account (env_replying []) ''alice'' ''pw'' anonymous_world =
     (None, anonymous_world\<lparr>screen := screen anonymous_world @ [Error_msg ''Username exists'']\<rparr>) \<and>
   storage_fails failing_env \<and>
   create_account failing_env ''carol'' ''pw'' anonymous_world =
     (None, anonymous_world\<lparr>screen := screen anonymous_world @ [Error_msg ''Username exists'']\<rparr>)"
proof -
  have a: "\<not> storage_fails (env_replying []) \<and> users (db anonymous_world) ''carol'' = None"
    by (simp add: env_replying_def anonymous_world_def example_db_def)
  have b: "users (db anonymous_world) ''alice'' \<noteq> None"
    by (simp add: anonymous_world_def example_db_def)
  have c: "storage_fails failing_env" by (simp add: failing_env_def)
  show ?thesis
    using a b c
      create_account_outcomes [of "env_replying []" anonymous_world "''carol''" "''pw''"]
      create_account_outcomes [of "env_replying []" anonymous_world "''alice''" "''pw''"]
      create_account_outcomes [of failing_env anonymous_world "''carol''" "''pw''"]
    by (simp add: find_user_def)
qed

text \<open>
  C7. Pressing "Analyse Food" with no uploaded image shows the warning "Upload image
  first" and does nothing else: no request goes to the AI service, and the database,
  with its history table, is unchanged.
\<close>

theorem analyse_food_without_upload:
  "analyse_food e None qty w = (None, w\<lparr>screen := screen w @ [Warning_msg ''Upload image first'']\<rparr>) \<and>
   ai_requests (snd (analyse_food e None qty w)) = ai_requests w \<and>
   db (snd (analyse_food e None qty w)) = db w \<and>
   history (db (snd (analyse_food e None qty w))) = history (db w)"
  by (simp add: analyse_food_def display_def)

text \<open>The cards of the calendar view are the fetched rows, one card per row, in order.\<close>

lemma filter_cards_render_rows:
  "filter is_card (render_rows cur rows) =
     map (\<lambda>(d, m, c). History_Card (card_color c) (card_icon c) m c) rows"
  by (induction cur rows rule: render_rows.induct) (simp_all add: Let_def)

text \<open>
  C8. A history card has the red circle and the colour #FF5252 when its calories are
  at least 500, and the green circle and the colour #81C784 when they are below 500;
  at exactly 500 it is red. The calendar view renders one such card for every fetched
  row.
\<close>

theorem calorie_threshold_inclusive:
  "(card_icon cal, card_color cal) =
     (if cal \<ge> 500 then (Red_Circle, ''#FF5252'') else (Green_Circle, ''#81C784'')) \<and>
   (card_icon 500, card_color 500) = (Red_Circle, ''#FF5252'') \<and>
   filter is_card (render_rows cur rows) =
     map (\<lambda>(d, m, c). History_Card (card_color c) (card_icon c) m c) rows"
  by (simp add: card_icon_def card_color_def HIGH_CAL_THRESHOLD_def filter_cards_render_rows)



text \<open>
  C9. Registration validates nothing: while the database can be written and holds no
  user with the empty username, submitting the empty username (with any password, the
  empty one included) succeeds and stores a row whose username is the empty string.
  The digest of the empty password is an ordinary digest of 64 hex characters, and the
  stored row is retrievable.
\<close>

theorem create_account_empty_username:
  assumes "\<not> storage_fails e" and "users (db w) [] = None"
  shows "create_account e [] np w =
           (None, w\<lparr>db := (db w)\<lparr>users := (users (db w))([] \<mapsto> hash_pass np)\<rparr>,
                    screen := screen w @ [Success_msg ''Account created'']\<rparr>) \<and>
         find_user (db (snd (create_account e [] [] w))) [] = Some (hash_pass []) \<and>
         length (hash_pass []) = 64 \<and>
         hash_pass [] = ''e3b0c44298fc1c149afbf4c8996fb92427ae41e4649b934ca495991b7852b855''"
  using assms
  by (simp add: create_account_def insert_user_def find_user_def display_def length_hash_pass
      hash_pass_empty)

text \<open>C9 on the example database, which has no user with the empty name.\<close>

theorem create_account_empty_username_witness:
  "\<not> storage_fails (env_replying []) \<and> users (db anonymous_world) [] = None \<and>
   find_user (db (snd (create_account (env_replying []) [] [] anonymous_world))) [] =
     Some (hash_pass [])"
proof -
  have a: "\<not> storage_fails (env_replying [])" by (simp add: env_replying_def)
  have b: "users (db anonymous_world) [] = None"
    by (simp add: anonymous_world_def example_db_def)
  show ?thesis using a b create_account_empty_username [OF a b, of "[]"]
    by (simp add: find_user_def)
qed

text \<open>
  C10. The meal label stored by a successful analysis is the prefix of the result
  text before its first newline character: the whole text, however long, when it has
  no newline, and the empty string when it begins with a newline.
\<close>

theorem meal_label_prefix:
  assumes "analyse_food e (Some up) qty w = (None, w')"
    and "ai_reply e (prompt qty) \<lparr>mime_type = file_type up, data = file_bytes up\<rparr> = Some result"
  shows "meal (last (history (db w'))) = takeWhile (\<lambda>c. c \<noteq> newline) result \<and>
         (newline \<notin> set result \<longrightarrow> meal (last (history (db w'))) = result) \<and>
         (\<forall>rest. result = newline # rest \<longrightarrow> meal (last (history (db w'))) = [])"
proof -
  from analyse_food_None_D [OF assms(1)] assms(2)
  have "meal (last (history (db w'))) = fst (split_on newline result)" by auto
  then show ?thesis by (auto simp: fst_split_on fst_split_on_no_sep)
qed

text \<open>C10 on a result text without a newline and on one that begins with a newline.\<close>

theorem meal_label_prefix_witness:
  "newline \<notin> set ''Apple'' \<and>
   meal (last (history (db (snd (analyse_food (env_replying ''Apple'') (Some example_upload)
     ''100g'' alice_world))))) = ''Apple'' \<and>
   meal (last (history (db (snd (analyse_food (env_replying (newline # ''Apple''))
     (Some example_upload) ''100g'' alice_world))))) = []"
proof -
  let ?img = "\<lparr>mime_type = file_type example_upload, data = file_bytes example_upload\<rparr>"
  let ?r1 = "analyse_food (env_replying ''Apple'') (Some example_upload) ''100g'' alice_world"
  let ?r2 = "analyse_food (env_replying (newline # ''Apple'')) (Some example_upload) ''100g''
               alice_world"
  have a1: "ai_reply (env_replying ''Apple'') (prompt ''100g'') ?img = Some ''Apple''"
    by (simp add: env_replying_def)
  have a2: "ai_reply (env_replying (newline # ''Apple'')) (prompt ''100g'') ?img =
              Some (newline # ''Apple'')"
    by (simp add: env_replying_def)
  have "fst ?r1 = None"
    using analyse_food_success [OF a1, of alice_world] apple_calories
    by (simp add: env_replying_def)
  then have b1: "?r1 = (None, snd ?r1)" by (simp add: prod_eq_iff)
  have "fst ?r2 = None"
    using analyse_food_success [OF a2, of alice_world] apple_calories
    by (simp add: env_replying_def)
  then have b2: "?r2 = (None, snd ?r2)" by (simp add: prod_eq_iff)
  have n: "newline \<notin> set ''Apple''" by (simp add: newline_def)
  show ?thesis
    using n meal_label_prefix [OF b1 a1] meal_label_prefix [OF b2 a2]
    by (simp add: newline_def)
qed

end
